theory Spec2Isabelle
  imports Main "HOL-Library.Multiset"
begin

section \<open>Shared types (src/types/index.ts)\<close>

text \<open>
  JavaScript numbers that hold millisecond time stamps and clock values are modelled as
  unbounded integers: every value the program computes from \<open>Date.now()\<close> and a whole
  number of minutes and seconds is an integer far below \<open>2^53\<close>, where the arithmetic of the
  source (\<open>+\<close>, \<open>-\<close>, \<open>Math.max\<close>, \<open>\<le>\<close>) is exact.
\<close>

datatype side = W | B

text \<open>\<open>Winner = "white" | "black" | "draw" | null\<close>: \<open>null\<close> is \<open>None\<close>.\<close>

datatype winner_label = White | Black | Draw

type_synonym Winner = "winner_label option"

record TimeControl =
  initialMinutes :: int
  incrementSeconds :: int

text \<open>The move object that chess.js returns from \<open>game.move\<close>, as far as the program reads it.\<close>

record chess_move =
  san :: string
  from_sq :: string
  to_sq :: string
  promotion :: "string option"

record ChatMessage =
  chat_id :: string
  sender :: string
  text_of :: string
  timestamp :: int
  system :: "bool option"
  side :: "side option"

record MoveRecord =
  ply :: nat
  side :: side
  san :: string
  uci :: string
  fenAfter :: string

datatype game_mode = AiMode | FriendMode

record SavedGame =
  game_id :: string
  mode :: game_mode
  createdAt :: int
  whiteName :: string
  blackName :: string
  resultWinner :: Winner
  resultReason :: string
  timeControl :: "TimeControl option"
  startFen :: string
  finalFen :: string
  pgn :: string
  moves :: "MoveRecord list"
  chats :: "ChatMessage list"

text \<open>Two finished games used as concrete inputs below, the second created later.\<close>

definition olderGame :: SavedGame where
  "olderGame =
     \<lparr>game_id = ''game_1'', mode = AiMode, createdAt = 1000,
      whiteName = ''Ann'', blackName = ''AI Lv3'',
      resultWinner = Some White, resultReason = ''Checkmate'',
      timeControl = Some \<lparr>initialMinutes = 5, incrementSeconds = 3\<rparr>,
      startFen = ''start'', finalFen = ''final'', pgn = ''1. e4'', moves = [], chats = []\<rparr>"

definition newerGame :: SavedGame where
  "newerGame =
     \<lparr>game_id = ''game_2'', mode = FriendMode, createdAt = 2000,
      whiteName = ''Ann'', blackName = ''Bob'',
      resultWinner = Some Draw, resultReason = ''Agreement'',
      timeControl = None,
      startFen = ''start'', finalFen = ''final'', pgn = ''1. d4'', moves = [], chats = []\<rparr>"

section \<open>Clock helpers (utils/clock, in src/unnamed/part_001)\<close>

definition sideToLabel :: "side \<Rightarrow> winner_label" where
  "sideToLabel s = (if s = W then White else Black)"

definition oppositeSide :: "side \<Rightarrow> side" where
  "oppositeSide s = (if s = W then B else W)"

text \<open>The \<open>clocks: { w: number; b: number }\<close> object, read and updated by a computed key.\<close>

record clocks_t =
  w :: int
  b :: int

definition clockOf :: "side \<Rightarrow> clocks_t \<Rightarrow> int" where
  "clockOf c k = (case c of W \<Rightarrow> w k | B \<Rightarrow> b k)"

definition setClock :: "side \<Rightarrow> int \<Rightarrow> clocks_t \<Rightarrow> clocks_t" where
  "setClock c v k = (case c of W \<Rightarrow> k\<lparr>w := v\<rparr> | B \<Rightarrow> k\<lparr>b := v\<rparr>)"

section \<open>The chess.js game object, as the program observes it\<close>

text \<open>
  chess.js is an external library. A \<open>Chess\<close> object is modelled by the answers of the
  methods the program calls on it: \<open>fen()\<close>, \<open>turn()\<close>, \<open>isGameOver()\<close>, \<open>isCheckmate()\<close>,
  \<open>isStalemate()\<close>, \<open>isThreefoldRepetition()\<close> and \<open>isInsufficientMaterial()\<close>.
\<close>

record chess =
  fen_of :: string
  turn_of :: side
  isGameOver :: bool
  isCheckmate :: bool
  isStalemate :: bool
  isThreefoldRepetition :: bool
  isInsufficientMaterial :: bool

record outcome =
  winner :: Winner
  reason :: string

text \<open>
  The contract of chess.js that links its reports: \<open>isGameOver()\<close> is the disjunction of
  checkmate, stalemate and the draw conditions, so each specific terminal report implies it.
\<close>

definition terminal_reports_imply_game_over :: "chess \<Rightarrow> bool" where
  "terminal_reports_imply_game_over g =
     (isCheckmate g \<or> isStalemate g \<or> isThreefoldRepetition g \<or> isInsufficientMaterial g
        \<longrightarrow> isGameOver g)"

section \<open>The local (AI mode) live state and its clock (AiGameScreen, src/unnamed/part_004)\<close>

datatype live_status = LivePlaying | LiveEnded

record LiveState =
  fen :: string
  turn :: side
  status :: live_status
  resultWinner :: Winner
  resultReason :: string
  moves :: "MoveRecord list"
  lastMoveUci :: "string option"
  clocks :: clocks_t
  initialMs :: int
  incrementMs :: int
  activeColor :: "side option"
  lastTickAt :: int

definition advanceClockAi :: "LiveState \<Rightarrow> int \<Rightarrow> LiveState" where
  "advanceClockAi state now =
     (if status state \<noteq> LivePlaying \<or> activeColor state = None then state
      else
        let elapsed = now - lastTickAt state in
        if elapsed \<le> 0 then state
        else
          let color = the (activeColor state);
              remaining = clockOf color (clocks state) - elapsed;
              updated = state\<lparr>clocks := setClock color (max 0 remaining) (clocks state),
                              lastTickAt := now\<rparr>
          in if remaining \<le> 0
             then updated\<lparr>status := LiveEnded,
                          activeColor := None,
                          resultWinner := Some (sideToLabel (oppositeSide color)),
                          resultReason := ''Flag''\<rparr>
             else updated)"

text \<open>A running local game, Black to move with one second left, last reconciled at time 0.\<close>

definition liveBlackToMove :: LiveState where
  "liveBlackToMove =
     \<lparr>fen = ''after e4'', turn = B, status = LivePlaying,
      resultWinner = None, resultReason = [],
      moves = [], lastMoveUci = None,
      clocks = \<lparr>w = 300000, b = 1000\<rparr>,
      initialMs = 300000, incrementMs = 3000,
      activeColor = Some B, lastTickAt = 0\<rparr>"

section \<open>The room snapshot (FriendRoomScreen, src/unnamed/part_005)\<close>

datatype room_status = Waiting | Playing | Ended

record RoomSnapshot =
  fen :: string
  turn :: side
  status :: room_status
  resultWinner :: Winner
  resultReason :: string
  moves :: "MoveRecord list"
  lastMoveUci :: "string option"
  whiteName :: string
  blackName :: string
  drawOfferBy :: "side option"
  clocks :: clocks_t
  initialMs :: int
  incrementMs :: int
  activeColor :: "side option"
  lastTickAt :: int

subsection \<open>Outcome resolver\<close>

definition getOutcomeFromChess :: "chess \<Rightarrow> outcome option" where
  "getOutcomeFromChess game =
     (if \<not> isGameOver game then None
      else if isCheckmate game
        then Some \<lparr>winner = Some (if turn_of game = W then Black else White),
                   reason = ''Checkmate''\<rparr>
      else if isStalemate game
        then Some \<lparr>winner = Some Draw, reason = ''Stalemate''\<rparr>
      else if isThreefoldRepetition game
        then Some \<lparr>winner = Some Draw, reason = ''Threefold repetition''\<rparr>
      else if isInsufficientMaterial game
        then Some \<lparr>winner = Some Draw, reason = ''Insufficient material''\<rparr>
      else Some \<lparr>winner = Some Draw, reason = ''Draw''\<rparr>)"

subsection \<open>Clock model\<close>

definition advanceClock :: "RoomSnapshot \<Rightarrow> int \<Rightarrow> RoomSnapshot" where
  "advanceClock snapshot now =
     (if status snapshot \<noteq> Playing \<or> activeColor snapshot = None then snapshot
      else
        let elapsed = now - lastTickAt snapshot in
        if elapsed \<le> 0 then snapshot
        else
          let color = the (activeColor snapshot);
              remaining = clockOf color (clocks snapshot) - elapsed;
              nextSnapshot = snapshot\<lparr>clocks := setClock color (max 0 remaining) (clocks snapshot),
                                      lastTickAt := now\<rparr>
          in if remaining \<le> 0
             then nextSnapshot\<lparr>status := Ended,
                               activeColor := None,
                               resultWinner := Some (sideToLabel (oppositeSide color)),
                               resultReason := ''Flag''\<rparr>
             else nextSnapshot)"

subsection \<open>Applying a move on the host\<close>

text \<open>
  The move-legality oracle is chess.js and is a parameter of the model: given the position
  (\<open>new Chess(fen)\<close>) and the move specification \<open>{from, to, promotion}\<close>, it answers
  \<open>None\<close> for a move it rejects (the falsy answer that \<open>if (!move)\<close> tests for), and otherwise
  the move object together with the game object after the move. Where the library signals an
  illegal move by throwing, as chess.js 1.x does, the updater returns no snapshot at all; that
  path has no value here, so the branch for \<open>None\<close> below describes the code's own test
  only, and no result about a rejected move relies on it.
\<close>

type_synonym chess_oracle = "string \<Rightarrow> string \<times> string \<times> string \<Rightarrow> (chess_move \<times> chess) option"

definition applyUci :: "chess_oracle \<Rightarrow> string \<Rightarrow> string \<Rightarrow> (chess_move \<times> chess) option" where
  "applyUci oracle position u =
     oracle position (take 2 u, take 2 (drop 2 u), (if 4 < length u then [u ! 4] else ''q''))"

text \<open>
  \<open>hostApplyMove\<close> is the updater handed to \<open>updateSnapshotAndBroadcast\<close>, paired with the
  \<open>accepted\<close> flag it sets. \<open>Date.now()\<close> is read twice, first for \<open>advanceClock\<close> (\<open>now\<close>) and
  then for the new \<open>lastTickAt\<close> (\<open>now'\<close>).
\<close>

definition hostApplyMove ::
  "chess_oracle \<Rightarrow> string \<Rightarrow> side \<Rightarrow> int \<Rightarrow> int \<Rightarrow> RoomSnapshot \<Rightarrow> RoomSnapshot \<times> bool" where
  "hostApplyMove oracle u moverSide now now' previous =
     (let current = advanceClock previous now in
      if status current \<noteq> Playing then (current, False)
      else if turn current \<noteq> moverSide then (current, False)
      else
        case applyUci oracle (fen current) u of
          None \<Rightarrow> (current, False)
        | Some (mv, game) \<Rightarrow>
            let nextMove = \<lparr>ply = length (moves current) + 1,
                            side = moverSide,
                            san = chess_move.san mv,
                            uci = from_sq mv @ to_sq mv @
                                  (case promotion mv of None \<Rightarrow> [] | Some p \<Rightarrow> p),
                            fenAfter = fen_of game\<rparr>;
                outcome = getOutcomeFromChess game
            in (current\<lparr>fen := fen_of game,
                        turn := turn_of game,
                        moves := moves current @ [nextMove],
                        lastMoveUci := Some (uci nextMove),
                        drawOfferBy := None,
                        clocks := setClock moverSide
                                    (clockOf moverSide (clocks current) + incrementMs current)
                                    (clocks current),
                        activeColor := (case outcome of None \<Rightarrow> Some (turn_of game)
                                                       | Some r \<Rightarrow> None),
                        lastTickAt := now',
                        status := (case outcome of None \<Rightarrow> Playing | Some r \<Rightarrow> Ended),
                        resultWinner := (case outcome of None \<Rightarrow> None | Some r \<Rightarrow> winner r),
                        resultReason := (case outcome of None \<Rightarrow> [] | Some r \<Rightarrow> reason r)\<rparr>,
                True))"

subsection \<open>Host-side event handlers\<close>

text \<open>
  The handlers are modelled by what they do to the snapshot. The chat log is a separate
  piece of component state that no handler below reads, and \<open>snapshotRef.current\<close> is taken
  to hold the current snapshot.
\<close>

definition finalizeGame :: "Winner \<Rightarrow> string \<Rightarrow> RoomSnapshot \<Rightarrow> RoomSnapshot" where
  "finalizeGame win rsn previous =
     previous\<lparr>status := Ended,
               activeColor := None,
               resultWinner := win,
               resultReason := rsn,
               drawOfferBy := None\<rparr>"

datatype NetworkMessage =
    Join string
  | RoomStart RoomSnapshot side
  | SnapshotMsg RoomSnapshot
  | Move string
  | Chat ChatMessage
  | DrawOffer
  | DrawResponse bool
  | Resign
  | ErrorMsg string

text \<open>The host's \<open>connection.on("data")\<close> callback.\<close>

definition hostOnData ::
  "chess_oracle \<Rightarrow> string \<Rightarrow> side \<Rightarrow> int \<Rightarrow> int \<Rightarrow> NetworkMessage \<Rightarrow> RoomSnapshot \<Rightarrow> RoomSnapshot" where
  "hostOnData oracle hostName hostSide now now' message snapshot =
     (case message of
        Join name \<Rightarrow>
          snapshot\<lparr>status := Playing,
                   turn := W,
                   activeColor := Some W,
                   lastTickAt := now,
                   whiteName := (if hostSide = W then hostName else name),
                   blackName := (if hostSide = B then hostName else name)\<rparr>
      | Move u \<Rightarrow> fst (hostApplyMove oracle u (oppositeSide hostSide) now now' snapshot)
      | Chat m \<Rightarrow> snapshot
      | DrawOffer \<Rightarrow> snapshot\<lparr>drawOfferBy := Some (oppositeSide hostSide)\<rparr>
      | DrawResponse accepted \<Rightarrow>
          (if accepted then finalizeGame (Some Draw) ''Agreement'' snapshot
           else snapshot\<lparr>drawOfferBy := None\<rparr>)
      | Resign \<Rightarrow> finalizeGame (Some (sideToLabel hostSide)) ''Resign'' snapshot
      | RoomStart s g \<Rightarrow> snapshot
      | SnapshotMsg s \<Rightarrow> snapshot
      | ErrorMsg e \<Rightarrow> snapshot)"

text \<open>The host's \<open>connection.on("close")\<close> callback.\<close>

definition hostOnClose :: "side \<Rightarrow> RoomSnapshot \<Rightarrow> RoomSnapshot" where
  "hostOnClose hostSide snapshot =
     (if status snapshot = Playing
      then finalizeGame (Some (sideToLabel hostSide)) ''Opponent disconnected'' snapshot
      else snapshot)"

text \<open>The host's local actions (the \<open>isHost\<close> branches of the component's callbacks).\<close>

definition onMove ::
  "chess_oracle \<Rightarrow> side \<Rightarrow> string \<Rightarrow> int \<Rightarrow> int \<Rightarrow> RoomSnapshot \<Rightarrow> RoomSnapshot \<times> bool" where
  "onMove oracle localSide u now now' snapshot =
     (if status snapshot \<noteq> Playing then (snapshot, False)
      else if turn snapshot \<noteq> localSide then (snapshot, False)
      else hostApplyMove oracle u localSide now now' snapshot)"

definition onOfferDraw :: "side \<Rightarrow> RoomSnapshot \<Rightarrow> RoomSnapshot" where
  "onOfferDraw localSide snapshot =
     (if status snapshot \<noteq> Playing then snapshot
      else snapshot\<lparr>drawOfferBy := Some localSide\<rparr>)"

definition onAcceptDraw :: "RoomSnapshot \<Rightarrow> RoomSnapshot" where
  "onAcceptDraw snapshot = finalizeGame (Some Draw) ''Agreement'' snapshot"

definition onDeclineDraw :: "RoomSnapshot \<Rightarrow> RoomSnapshot" where
  "onDeclineDraw snapshot = snapshot\<lparr>drawOfferBy := None\<rparr>"

definition onResign :: "side \<Rightarrow> RoomSnapshot \<Rightarrow> RoomSnapshot" where
  "onResign localSide snapshot =
     (if status snapshot \<noteq> Playing then snapshot
      else finalizeGame (Some (sideToLabel (oppositeSide localSide))) ''Resign'' snapshot)"

text \<open>
  \<open>GameArena\<close> renders the Accept and Decline buttons only while this condition holds, so the
  host's own \<open>onAcceptDraw\<close> and \<open>onDeclineDraw\<close> are reachable only with an offer pending.
\<close>

definition drawOfferFromOpponent :: "side \<Rightarrow> RoomSnapshot \<Rightarrow> bool" where
  "drawOfferFromOpponent localSide snapshot =
     (drawOfferBy snapshot \<noteq> None \<and> drawOfferBy snapshot \<noteq> Some localSide)"

subsection \<open>Agreement of the local and the networked state on their shared clock fields\<close>

fun room_status_of :: "live_status \<Rightarrow> room_status" where
  "room_status_of LivePlaying = Playing"
| "room_status_of LiveEnded = Ended"

definition agree_on_clock_fields :: "LiveState \<Rightarrow> RoomSnapshot \<Rightarrow> bool" where
  "agree_on_clock_fields l s =
     (room_status_of (LiveState.status l) = status s \<and>
      LiveState.clocks l = clocks s \<and>
      LiveState.activeColor l = activeColor s \<and>
      LiveState.lastTickAt l = lastTickAt s \<and>
      LiveState.resultWinner l = resultWinner s \<and>
      LiveState.resultReason l = resultReason s)"

subsection \<open>Concrete rooms and oracles\<close>

text \<open>A room right after the guest joined: five minutes each, three seconds increment.\<close>

definition startedRoom :: RoomSnapshot where
  "startedRoom =
     \<lparr>fen = ''start'', turn = W, status = Playing,
      resultWinner = None, resultReason = [],
      moves = [], lastMoveUci = None,
      whiteName = ''Ann'', blackName = ''Bob'',
      drawOfferBy = None,
      clocks = \<lparr>w = 300000, b = 300000\<rparr>,
      initialMs = 300000, incrementMs = 3000,
      activeColor = Some W, lastTickAt = 0\<rparr>"

text \<open>The same room with Black to move and one second left on Black's clock.\<close>

definition blackToMoveRoom :: RoomSnapshot where
  "blackToMoveRoom =
     startedRoom\<lparr>fen := ''after e4'', turn := B, activeColor := Some B,
                 clocks := \<lparr>w = 300000, b = 1000\<rparr>\<rparr>"

text \<open>A room whose game White has won by checkmate.\<close>

definition endedRoom :: RoomSnapshot where
  "endedRoom =
     startedRoom\<lparr>status := Ended, activeColor := None,
                 resultWinner := Some White, resultReason := ''Checkmate''\<rparr>"

text \<open>
  An oracle that accepts the pawn move e2e4 from the start position and the reply e7e5, and
  nothing else.
\<close>

definition pawnOracle :: chess_oracle where
  "pawnOracle position spec =
     (if position = ''start'' \<and> spec = (''e2'', ''e4'', ''q'')
      then Some (\<lparr>chess_move.san = ''e4'', from_sq = ''e2'', to_sq = ''e4'', promotion = None\<rparr>,
                 \<lparr>fen_of = ''after e4'', turn_of = B,
                  isGameOver = False, isCheckmate = False, isStalemate = False,
                  isThreefoldRepetition = False, isInsufficientMaterial = False\<rparr>)
      else if position = ''after e4'' \<and> spec = (''e7'', ''e5'', ''q'')
      then Some (\<lparr>chess_move.san = ''e5'', from_sq = ''e7'', to_sq = ''e5'', promotion = None\<rparr>,
                 \<lparr>fen_of = ''after e4 e5'', turn_of = W,
                  isGameOver = False, isCheckmate = False, isStalemate = False,
                  isThreefoldRepetition = False, isInsufficientMaterial = False\<rparr>)
      else None)"

text \<open>A game object that reports checkmate with White to move.\<close>

definition matedWhite :: chess where
  "matedWhite =
     \<lparr>fen_of = ''mate'', turn_of = W,
      isGameOver = True, isCheckmate = True, isStalemate = False,
      isThreefoldRepetition = False, isInsufficientMaterial = False\<rparr>"

section \<open>Persistence of finished games (utils/storage, in src/unnamed/part_001)\<close>

text \<open>
  What \<open>localStorage.getItem(GAMES_KEY)\<close> holds, classified by what \<open>loadGames\<close> makes of it:
  nothing (\<open>null\<close> or the empty string), a string \<open>JSON.parse\<close> throws on, a JSON value that is
  not an array, or an array of games. \<open>localStorage.setItem\<close> is taken to succeed, and
  \<open>JSON.stringify\<close> followed by \<open>JSON.parse\<close> to give the games back.
\<close>

datatype stored = NoItem | Unparseable | NotArray | GamesArray "SavedGame list"

text \<open>
  \<open>Array.prototype.sort\<close> with a comparator is a stable sort: \<open>a\<close> stays before \<open>b\<close> when
  the comparator's answer is not positive.
\<close>

fun insertBy :: "('a \<Rightarrow> 'a \<Rightarrow> int) \<Rightarrow> 'a \<Rightarrow> 'a list \<Rightarrow> 'a list" where
  "insertBy cmp x [] = [x]"
| "insertBy cmp x (y # ys) = (if cmp x y \<le> 0 then x # y # ys else y # insertBy cmp x ys)"

fun sortBy :: "('a \<Rightarrow> 'a \<Rightarrow> int) \<Rightarrow> 'a list \<Rightarrow> 'a list" where
  "sortBy cmp [] = []"
| "sortBy cmp (x # xs) = insertBy cmp x (sortBy cmp xs)"

definition newestFirst :: "SavedGame \<Rightarrow> SavedGame \<Rightarrow> int" where
  "newestFirst x y = createdAt y - createdAt x"

definition loadGames :: "stored \<Rightarrow> SavedGame list" where
  "loadGames raw =
     (case raw of
        NoItem \<Rightarrow> []
      | Unparseable \<Rightarrow> []
      | NotArray \<Rightarrow> []
      | GamesArray parsed \<Rightarrow> sortBy newestFirst parsed)"

definition saveGame :: "SavedGame \<Rightarrow> stored \<Rightarrow> SavedGame list \<times> stored" where
  "saveGame game raw =
     (let games = loadGames raw;
          next = take 200 (game # games)
      in (next, GamesArray next))"

section \<open>Properties of the clock model\<close>

lemma oppositeSide_neq: "oppositeSide c \<noteq> c"
  by (cases c) (simp_all add: oppositeSide_def)

lemma clockOf_setClock_same: "clockOf c (setClock c v k) = v"
  by (cases c) (simp_all add: clockOf_def setClock_def)

lemma clockOf_setClock_opposite:
  "clockOf (oppositeSide c) (setClock c v k) = clockOf (oppositeSide c) k"
  by (cases c) (simp_all add: clockOf_def setClock_def oppositeSide_def)



text \<open>
  Claim C7. \<open>advanceClock\<close> is idempotent at a fixed time: advancing the result of
  \<open>advanceClock s now\<close> to the same \<open>now\<close> again changes nothing.
\<close>

theorem advanceClock_idempotent:
  "advanceClock (advanceClock s now) now = advanceClock s now"
  by (simp add: advanceClock_def Let_def)

text \<open>At a room where the first call does change the snapshot.\<close>

theorem advanceClock_idempotent_witness:
  "advanceClock blackToMoveRoom 400 \<noteq> blackToMoveRoom \<and>
   advanceClock (advanceClock blackToMoveRoom 400) 400 = advanceClock blackToMoveRoom 400"
proof -
  have "lastTickAt (advanceClock blackToMoveRoom 400) \<noteq> lastTickAt blackToMoveRoom"
    by (simp add: advanceClock_def Let_def blackToMoveRoom_def startedRoom_def)
  then have "advanceClock blackToMoveRoom 400 \<noteq> blackToMoveRoom" by auto
  then show ?thesis using advanceClock_idempotent [of blackToMoveRoom 400] by simp
qed

text \<open>
  Claim C8. The clock of the local (AI mode) game and the clock of the networked room are
  behaviourally equivalent: from states that agree on status, clocks, active colour, last
  tick, result winner and result reason, advancing both to the same time gives states that
  agree on those fields again.
\<close>

theorem advanceClock_local_networked_agree:
  assumes "agree_on_clock_fields l s"
  shows "agree_on_clock_fields (advanceClockAi l now) (advanceClock s now)"
proof (cases "LiveState.status l")
  case LivePlaying
  with assms show ?thesis
    by (auto simp: agree_on_clock_fields_def advanceClockAi_def advanceClock_def Let_def)
next
  case LiveEnded
  with assms show ?thesis
    by (auto simp: agree_on_clock_fields_def advanceClockAi_def advanceClock_def Let_def)
qed

text \<open>A local game and a room that agree, advanced to the moment Black's flag falls.\<close>

theorem advanceClock_local_networked_agree_witness:
  "agree_on_clock_fields liveBlackToMove blackToMoveRoom \<and>
   agree_on_clock_fields (advanceClockAi liveBlackToMove 1000) (advanceClock blackToMoveRoom 1000) \<and>
   status (advanceClock blackToMoveRoom 1000) = Ended"
proof -
  have h: "agree_on_clock_fields liveBlackToMove blackToMoveRoom"
    by (simp add: agree_on_clock_fields_def liveBlackToMove_def blackToMoveRoom_def startedRoom_def)
  have "status (advanceClock blackToMoveRoom 1000) = Ended"
    by (simp add: advanceClock_def Let_def blackToMoveRoom_def startedRoom_def clockOf_def)
  with h advanceClock_local_networked_agree [OF h, of 1000] show ?thesis by simp
qed

section \<open>Properties of the outcome resolver\<close>

text \<open>
  Claim C6. For every position whose reports satisfy the contract of chess.js, the outcome
  resolver answers in this order of priority: checkmate gives the win to the side that just
  moved (the side opposite the one to move) with reason "Checkmate"; else stalemate, threefold
  repetition and insufficient material give a draw with their own reason; else any other
  terminal position gives a draw with reason "Draw"; and the answer is \<open>None\<close> exactly when
  the position is not terminal.
\<close>

theorem getOutcomeFromChess_priority:
  assumes "terminal_reports_imply_game_over g"
  shows "getOutcomeFromChess g =
           (if isCheckmate g
              then Some \<lparr>winner = Some (sideToLabel (oppositeSide (turn_of g))),
                         reason = ''Checkmate''\<rparr>
            else if isStalemate g then Some \<lparr>winner = Some Draw, reason = ''Stalemate''\<rparr>
            else if isThreefoldRepetition g
              then Some \<lparr>winner = Some Draw, reason = ''Threefold repetition''\<rparr>
            else if isInsufficientMaterial g
              then Some \<lparr>winner = Some Draw, reason = ''Insufficient material''\<rparr>
            else if isGameOver g then Some \<lparr>winner = Some Draw, reason = ''Draw''\<rparr>
            else None)
         \<and> (getOutcomeFromChess g = None \<longleftrightarrow> \<not> isGameOver g)"
  using assms
  by (cases "turn_of g")
     (auto simp: getOutcomeFromChess_def terminal_reports_imply_game_over_def
                 sideToLabel_def oppositeSide_def)

text \<open>White is mated, so Black, who just moved, wins.\<close>

theorem getOutcomeFromChess_priority_witness:
  "terminal_reports_imply_game_over matedWhite \<and>
   getOutcomeFromChess matedWhite = Some \<lparr>winner = Some Black, reason = ''Checkmate''\<rparr>"
proof -
  have h: "terminal_reports_imply_game_over matedWhite"
    by (simp add: terminal_reports_imply_game_over_def matedWhite_def)
  from getOutcomeFromChess_priority [OF h]
  have "getOutcomeFromChess matedWhite =
          Some \<lparr>winner = Some (sideToLabel (oppositeSide (turn_of matedWhite))),
                reason = ''Checkmate''\<rparr>"
    by (simp add: matedWhite_def)
  then show ?thesis using h by (simp add: matedWhite_def sideToLabel_def oppositeSide_def)
qed

section \<open>Properties of applying a move on the host\<close>

lemma advanceClock_frame:
  "fen (advanceClock s now) = fen s \<and> turn (advanceClock s now) = turn s \<and>
   moves (advanceClock s now) = moves s \<and> lastMoveUci (advanceClock s now) = lastMoveUci s \<and>
   drawOfferBy (advanceClock s now) = drawOfferBy s \<and>
   whiteName (advanceClock s now) = whiteName s \<and> blackName (advanceClock s now) = blackName s \<and>
   initialMs (advanceClock s now) = initialMs s \<and> incrementMs (advanceClock s now) = incrementMs s"
  by (simp add: advanceClock_def Let_def)

lemma advanceClock_not_playing: "status s \<noteq> Playing \<Longrightarrow> advanceClock s now = s"
  by (simp add: advanceClock_def)

lemma advanceClock_startedRoom_0: "advanceClock startedRoom 0 = startedRoom"
  by (simp add: advanceClock_def startedRoom_def)

lemma applyUci_pawn:
  "applyUci pawnOracle ''start'' ''e2e4'' =
     Some (\<lparr>chess_move.san = ''e4'', from_sq = ''e2'', to_sq = ''e4'', promotion = None\<rparr>,
           \<lparr>fen_of = ''after e4'', turn_of = B,
            isGameOver = False, isCheckmate = False, isStalemate = False,
            isThreefoldRepetition = False, isInsufficientMaterial = False\<rparr>)"
  by (simp add: applyUci_def pawnOracle_def)

text \<open>
  Claim C3, as stated, asks for the effects of an accepted move at every snapshot with status
  playing where the side to move submits a move the oracle accepts. It fails where the
  mover's flag falls in the clock advance that \<open>hostApplyMove\<close> runs first: Black, to move with
  one second left and last reconciled at time 0, submits the legal e7e5 at time 5000; the
  advance ends the game, and the move is not applied.
\<close>

theorem hostApplyMove_flag_counterexample:
  "status blackToMoveRoom = Playing \<and>
   turn blackToMoveRoom = B \<and>
   applyUci pawnOracle (fen blackToMoveRoom) ''e7e5'' \<noteq> None \<and>
   snd (hostApplyMove pawnOracle ''e7e5'' B 5000 5000 blackToMoveRoom) = False \<and>
   moves (fst (hostApplyMove pawnOracle ''e7e5'' B 5000 5000 blackToMoveRoom)) =
     moves blackToMoveRoom \<and>
   status (fst (hostApplyMove pawnOracle ''e7e5'' B 5000 5000 blackToMoveRoom)) = Ended"
  by (simp add: hostApplyMove_def advanceClock_def Let_def blackToMoveRoom_def startedRoom_def
        applyUci_def pawnOracle_def clockOf_def)

text \<open>
  Claim C3, amended. For every snapshot that still has status playing after the clock has
  been advanced to \<open>now\<close>, and a move submitted by the side to move that the oracle accepts,
  \<open>hostApplyMove\<close> accepts the move and appends exactly one record to the moves; sets the
  position, the turn and the last move from the oracle's answer; clears the draw offer; adds
  the increment to the mover's clock as the advance left it and leaves the other side's clock
  as the advance left it; sets \<open>lastTickAt\<close> to the second reading of the time; and either
  applies the terminal result of the outcome resolver (status ended, no active clock) or keeps
  status playing with the active clock on the new side to move and an empty result.
\<close>

theorem hostApplyMove_accepted:
  assumes playing: "status (advanceClock previous now) = Playing"
    and mover: "turn previous = moverSide"
    and legal: "applyUci oracle (fen previous) u = Some (mv, game)"
  shows
   "(let r = fst (hostApplyMove oracle u moverSide now now' previous);
         current = advanceClock previous now;
         played = from_sq mv @ to_sq mv @ (case promotion mv of None \<Rightarrow> [] | Some p \<Rightarrow> p)
     in snd (hostApplyMove oracle u moverSide now now' previous) = True \<and>
        moves r = moves previous @
          [\<lparr>ply = length (moves previous) + 1, side = moverSide, san = chess_move.san mv,
            uci = played, fenAfter = fen_of game\<rparr>] \<and>
        fen r = fen_of game \<and>
        turn r = turn_of game \<and>
        lastMoveUci r = Some played \<and>
        drawOfferBy r = None \<and>
        clockOf moverSide (clocks r) = clockOf moverSide (clocks current) + incrementMs previous \<and>
        clockOf (oppositeSide moverSide) (clocks r) =
          clockOf (oppositeSide moverSide) (clocks current) \<and>
        lastTickAt r = now' \<and>
        (case getOutcomeFromChess game of
           Some verdict \<Rightarrow>
             status r = Ended \<and> activeColor r = None \<and>
             resultWinner r = winner verdict \<and> resultReason r = reason verdict
         | None \<Rightarrow>
             status r = Playing \<and> activeColor r = Some (turn_of game) \<and>
             resultWinner r = None \<and> resultReason r = []))"
proof -
  define current where "current = advanceClock previous now"
  have fr: "fen current = fen previous" "turn current = turn previous"
    "moves current = moves previous" "incrementMs current = incrementMs previous"
    unfolding current_def using advanceClock_frame [of previous now] by simp_all
  have st: "status current = Playing" unfolding current_def by (rule playing)
  show ?thesis
    using st fr mover legal
    unfolding hostApplyMove_def current_def [symmetric] Let_def
    by (simp add: clockOf_setClock_same clockOf_setClock_opposite split: option.split)
qed

text \<open>
  The scenario of the specification: five minutes each, White plays e2e4 at time 0 with a
  three-second increment; White's clock shows 5:03, Black's is unchanged, and it is Black's
  turn with Black's clock running.
\<close>

theorem hostApplyMove_accepted_witness:
  "status (advanceClock startedRoom 0) = Playing \<and>
   turn startedRoom = W \<and>
   applyUci pawnOracle (fen startedRoom) ''e2e4'' \<noteq> None \<and>
   snd (hostApplyMove pawnOracle ''e2e4'' W 0 0 startedRoom) = True \<and>
   length (moves (fst (hostApplyMove pawnOracle ''e2e4'' W 0 0 startedRoom))) = 1 \<and>
   clockOf W (clocks (fst (hostApplyMove pawnOracle ''e2e4'' W 0 0 startedRoom))) = 303000 \<and>
   clockOf B (clocks (fst (hostApplyMove pawnOracle ''e2e4'' W 0 0 startedRoom))) = 300000 \<and>
   turn (fst (hostApplyMove pawnOracle ''e2e4'' W 0 0 startedRoom)) = B \<and>
   status (fst (hostApplyMove pawnOracle ''e2e4'' W 0 0 startedRoom)) = Playing \<and>
   activeColor (fst (hostApplyMove pawnOracle ''e2e4'' W 0 0 startedRoom)) = Some B"
proof -
  have h1: "status (advanceClock startedRoom 0) = Playing"
    by (simp add: advanceClock_startedRoom_0) (simp add: startedRoom_def)
  have h2: "turn startedRoom = W" by (simp add: startedRoom_def)
  have f: "fen startedRoom = ''start''" by (simp add: startedRoom_def)
  have h3: "applyUci pawnOracle (fen startedRoom) ''e2e4'' =
     Some (\<lparr>chess_move.san = ''e4'', from_sq = ''e2'', to_sq = ''e4'', promotion = None\<rparr>,
           \<lparr>fen_of = ''after e4'', turn_of = B,
            isGameOver = False, isCheckmate = False, isStalemate = False,
            isThreefoldRepetition = False, isInsufficientMaterial = False\<rparr>)"
    unfolding f by (rule applyUci_pawn)
  have ob: "oppositeSide W = B" by (simp add: oppositeSide_def)
  have k: "clockOf W (clocks startedRoom) = 300000" "clockOf B (clocks startedRoom) = 300000"
    "incrementMs startedRoom = 3000" "moves startedRoom = []"
    by (simp_all add: startedRoom_def clockOf_def)
  from hostApplyMove_accepted [OF h1 h2 h3, of 0]
  show ?thesis
    using h1 h2 h3 k
    by (simp add: Let_def advanceClock_startedRoom_0 getOutcomeFromChess_def ob)
qed

text \<open>
  Claim C4, as stated, says that a rejected move leaves the snapshot completely unchanged,
  clocks and \<open>lastTickAt\<close> included. It fails for a running game: with White to move, Black
  submits a move one second after the last reconciliation; the move is rejected as out of
  turn, yet the snapshot that \<open>hostApplyMove\<close> returns has White's clock one second lower and
  \<open>lastTickAt\<close> moved on.
\<close>

theorem hostApplyMove_rejected_counterexample:
  "status startedRoom = Playing \<and>
   turn startedRoom = W \<and>
   snd (hostApplyMove pawnOracle ''e2e4'' B 1000 1000 startedRoom) = False \<and>
   fst (hostApplyMove pawnOracle ''e2e4'' B 1000 1000 startedRoom) \<noteq> startedRoom \<and>
   clocks (fst (hostApplyMove pawnOracle ''e2e4'' B 1000 1000 startedRoom)) =
     \<lparr>w = 299000, b = 300000\<rparr> \<and>
   clocks startedRoom = \<lparr>w = 300000, b = 300000\<rparr> \<and>
   lastTickAt (fst (hostApplyMove pawnOracle ''e2e4'' B 1000 1000 startedRoom)) = 1000 \<and>
   lastTickAt startedRoom = 0"
proof -
  have r: "hostApplyMove pawnOracle ''e2e4'' B 1000 1000 startedRoom =
        (startedRoom\<lparr>clocks := \<lparr>w = 299000, b = 300000\<rparr>, lastTickAt := 1000\<rparr>, False)"
    by (simp add: hostApplyMove_def advanceClock_def Let_def startedRoom_def
        clockOf_def setClock_def)
  have t: "lastTickAt (fst (hostApplyMove pawnOracle ''e2e4'' B 1000 1000 startedRoom)) = 1000"
    unfolding r by simp
  have t0: "lastTickAt startedRoom = 0" by (simp add: startedRoom_def)
  have ne: "fst (hostApplyMove pawnOracle ''e2e4'' B 1000 1000 startedRoom) \<noteq> startedRoom"
  proof
    assume "fst (hostApplyMove pawnOracle ''e2e4'' B 1000 1000 startedRoom) = startedRoom"
    with t have "lastTickAt startedRoom = 1000" by simp
    with t0 show False by simp
  qed
  have c: "clocks (fst (hostApplyMove pawnOracle ''e2e4'' B 1000 1000 startedRoom)) =
     \<lparr>w = 299000, b = 300000\<rparr>"
    unfolding r by simp
  have s: "snd (hostApplyMove pawnOracle ''e2e4'' B 1000 1000 startedRoom) = False"
    unfolding r by simp
  have o: "status startedRoom = Playing" "turn startedRoom = W"
    "clocks startedRoom = \<lparr>w = 300000, b = 300000\<rparr>"
    by (simp_all add: startedRoom_def)
  from t t0 ne c s o show ?thesis by simp
qed

text \<open>
  Claim C4, amended. Whenever a move is rejected as a protocol violation (after the clock
  advance the game is not in status playing, or the submitting side is not the side to move),
  the host's snapshot becomes exactly the clock-advanced snapshot \<open>advanceClock previous now\<close>:
  position, turn, moves, last move, draw offer, names and time control are unchanged, and only
  the fields the clock advance writes can differ. When the game was not in status playing
  before the event, the snapshot is completely unchanged. The oracle is not consulted on
  these paths, and nothing is said here about a move the oracle rejects.
\<close>

theorem hostApplyMove_rejected:
  assumes "status (advanceClock previous now) \<noteq> Playing \<or> turn previous \<noteq> moverSide"
  shows
   "(let r = fst (hostApplyMove oracle u moverSide now now' previous)
     in snd (hostApplyMove oracle u moverSide now now' previous) = False \<and>
        r = advanceClock previous now \<and>
        fen r = fen previous \<and> turn r = turn previous \<and> moves r = moves previous \<and>
        lastMoveUci r = lastMoveUci previous \<and> drawOfferBy r = drawOfferBy previous \<and>
        whiteName r = whiteName previous \<and> blackName r = blackName previous \<and>
        initialMs r = initialMs previous \<and> incrementMs r = incrementMs previous \<and>
        (status previous \<noteq> Playing \<longrightarrow> r = previous))"
proof -
  define current where "current = advanceClock previous now"
  have fr: "turn current = turn previous"
    unfolding current_def using advanceClock_frame [of previous now] by simp
  have rej: "hostApplyMove oracle u moverSide now now' previous = (current, False)"
    using assms fr
    unfolding hostApplyMove_def current_def [symmetric] Let_def
    by auto
  show ?thesis
    unfolding rej Let_def current_def
    using advanceClock_frame [of previous now] advanceClock_not_playing [of previous now]
    by simp
qed

text \<open>
  A move by the side not to move in a running game leaves the clock-advanced snapshot, and a
  move against a finished game leaves the snapshot as it was.
\<close>

theorem hostApplyMove_rejected_witness:
  "turn startedRoom \<noteq> B \<and>
   snd (hostApplyMove pawnOracle ''e2e4'' B 1000 1000 startedRoom) = False \<and>
   fst (hostApplyMove pawnOracle ''e2e4'' B 1000 1000 startedRoom) =
     advanceClock startedRoom 1000 \<and>
   moves (fst (hostApplyMove pawnOracle ''e2e4'' B 1000 1000 startedRoom)) = [] \<and>
   status endedRoom \<noteq> Playing \<and>
   fst (hostApplyMove pawnOracle ''e2e4'' W 1000 1000 endedRoom) = endedRoom"
proof -
  have h: "turn startedRoom \<noteq> B" by (simp add: startedRoom_def)
  have e: "status (advanceClock endedRoom 1000) \<noteq> Playing" "status endedRoom \<noteq> Playing"
    by (simp_all add: advanceClock_def endedRoom_def startedRoom_def)
  have m: "moves startedRoom = []" by (simp add: startedRoom_def)
  from hostApplyMove_rejected [of startedRoom 1000 B pawnOracle "''e2e4''" 1000]
       hostApplyMove_rejected [of endedRoom 1000 W pawnOracle "''e2e4''" 1000]
  show ?thesis
    using h e m advanceClock_frame [of startedRoom 1000]
      advanceClock_not_playing [of endedRoom 1000]
    by (simp add: Let_def)
qed

text \<open>
  Claim C9. \<open>hostApplyMove\<close> never changes the configuration and identity fields of the room:
  for every snapshot, mover and move, accepted or not, the names of both players, the initial
  time and the increment of the returned snapshot are those of the input.
\<close>

theorem hostApplyMove_keeps_configuration:
  "whiteName (fst (hostApplyMove oracle u moverSide now now' previous)) = whiteName previous \<and>
   blackName (fst (hostApplyMove oracle u moverSide now now' previous)) = blackName previous \<and>
   initialMs (fst (hostApplyMove oracle u moverSide now now' previous)) = initialMs previous \<and>
   incrementMs (fst (hostApplyMove oracle u moverSide now now' previous)) = incrementMs previous"
  using advanceClock_frame [of previous now]
  by (simp add: hostApplyMove_def Let_def split: option.split prod.split)

text \<open>At an accepted move.\<close>

theorem hostApplyMove_keeps_configuration_witness:
  "snd (hostApplyMove pawnOracle ''e2e4'' W 0 0 startedRoom) = True \<and>
   whiteName (fst (hostApplyMove pawnOracle ''e2e4'' W 0 0 startedRoom)) = ''Ann'' \<and>
   blackName (fst (hostApplyMove pawnOracle ''e2e4'' W 0 0 startedRoom)) = ''Bob'' \<and>
   initialMs (fst (hostApplyMove pawnOracle ''e2e4'' W 0 0 startedRoom)) = 300000 \<and>
   incrementMs (fst (hostApplyMove pawnOracle ''e2e4'' W 0 0 startedRoom)) = 3000"
proof -
  have a: "snd (hostApplyMove pawnOracle ''e2e4'' W 0 0 startedRoom) = True"
    by (simp add: hostApplyMove_def advanceClock_def Let_def startedRoom_def
          applyUci_def pawnOracle_def)
  have c: "whiteName startedRoom = ''Ann''" "blackName startedRoom = ''Bob''"
    "initialMs startedRoom = 300000" "incrementMs startedRoom = 3000"
    by (simp_all add: startedRoom_def)
  from hostApplyMove_keeps_configuration [of pawnOracle "''e2e4''" W 0 0 startedRoom]
  show ?thesis using a c by simp
qed

section \<open>Events on a finished game and draw responses\<close>

lemma hostApplyMove_not_playing:
  "status s \<noteq> Playing \<Longrightarrow> hostApplyMove oracle u moverSide now now' s = (s, False)"
  by (simp add: hostApplyMove_def advanceClock_not_playing)

text \<open>
  The events whose handlers look at the status leave a finished game alone: a move message,
  a chat message, a clock tick, the host's own move, draw offer and resignation, and the
  closing of the connection.
\<close>

lemma ended_room_guarded_events:
  assumes "status s = Ended"
  shows "hostOnData oracle hostName hostSide now now' (Move u) s = s"
    and "hostOnData oracle hostName hostSide now now' (Chat m) s = s"
    and "advanceClock s now = s"
    and "fst (onMove oracle localSide u now now' s) = s"
    and "onOfferDraw localSide s = s"
    and "onResign localSide s = s"
    and "hostOnClose hostSide s = s"
  using assms
  by (simp_all add: hostOnData_def hostApplyMove_not_playing advanceClock_not_playing
        onMove_def onOfferDraw_def onResign_def hostOnClose_def)

text \<open>
  Claim C1 says that no event changes a snapshot whose status is ended, and that the status
  never leaves ended. The handlers of the guest's join, resign, draw-response and draw-offer
  messages, and the host's own accept action, do not look at the status. At the room White
  has won by checkmate, with the host playing Black: a join message sets the status back to
  playing; the guest's resign message turns the result into a win for Black by "Resign"; an
  accepting draw response, from the guest or from the host, turns it into a draw by
  "Agreement"; and a draw-offer message records an offer.
\<close>

theorem ended_room_changed_by_guest_messages:
  "status endedRoom = Ended \<and>
   status (hostOnData pawnOracle ''Bob'' B 9000 9000 (Join ''Eve'') endedRoom) = Playing \<and>
   hostOnData pawnOracle ''Bob'' B 9000 9000 Resign endedRoom =
     endedRoom\<lparr>resultWinner := Some Black, resultReason := ''Resign''\<rparr> \<and>
   resultWinner endedRoom = Some White \<and>
   hostOnData pawnOracle ''Bob'' B 9000 9000 (DrawResponse True) endedRoom =
     endedRoom\<lparr>resultWinner := Some Draw, resultReason := ''Agreement''\<rparr> \<and>
   hostOnData pawnOracle ''Bob'' B 9000 9000 DrawOffer endedRoom =
     endedRoom\<lparr>drawOfferBy := Some W\<rparr> \<and>
   drawOfferBy endedRoom = None \<and>
   onAcceptDraw endedRoom = endedRoom\<lparr>resultWinner := Some Draw, resultReason := ''Agreement''\<rparr>"
  by (simp add: hostOnData_def finalizeGame_def onAcceptDraw_def endedRoom_def startedRoom_def
        sideToLabel_def oppositeSide_def)

text \<open>
  What the draw-response handlers do at every snapshot: an accepting response ends the game
  as a draw by "Agreement" and clears the offer; a declining one clears the offer and changes
  nothing else, so it changes nothing when no offer is pending.
\<close>

lemma draw_response_accepted:
  "hostOnData oracle hostName hostSide now now' (DrawResponse True) s =
     s\<lparr>status := Ended, activeColor := None, resultWinner := Some Draw,
       resultReason := ''Agreement'', drawOfferBy := None\<rparr>"
  "onAcceptDraw s =
     s\<lparr>status := Ended, activeColor := None, resultWinner := Some Draw,
       resultReason := ''Agreement'', drawOfferBy := None\<rparr>"
  by (simp_all add: hostOnData_def onAcceptDraw_def finalizeGame_def)

lemma draw_response_declined:
  "hostOnData oracle hostName hostSide now now' (DrawResponse False) s = s\<lparr>drawOfferBy := None\<rparr>"
  "onDeclineDraw s = s\<lparr>drawOfferBy := None\<rparr>"
  by (simp_all add: hostOnData_def onDeclineDraw_def)

lemma draw_response_declined_without_offer:
  "drawOfferBy s = None \<Longrightarrow>
     hostOnData oracle hostName hostSide now now' (DrawResponse False) s = s"
  by (simp add: hostOnData_def)

text \<open>
  Claim C5 says that a draw response is processed only when a draw offer is pending, so that
  with no offer pending it changes nothing. The host's handler of the guest's draw-response
  message does not look at \<open>drawOfferBy\<close>: in a running game with no offer pending, an
  accepting response from the guest ends the game as a draw by "Agreement".
\<close>

theorem draw_accepted_without_offer:
  "status startedRoom = Playing \<and>
   drawOfferBy startedRoom = None \<and>
   hostOnData pawnOracle ''Ann'' W 1000 1000 (DrawResponse True) startedRoom =
     startedRoom\<lparr>status := Ended, activeColor := None, resultWinner := Some Draw,
                 resultReason := ''Agreement''\<rparr> \<and>
   hostOnData pawnOracle ''Ann'' W 1000 1000 (DrawResponse True) startedRoom \<noteq> startedRoom"
proof -
  have r: "hostOnData pawnOracle ''Ann'' W 1000 1000 (DrawResponse True) startedRoom =
     startedRoom\<lparr>status := Ended, activeColor := None, resultWinner := Some Draw,
                 resultReason := ''Agreement''\<rparr>"
    by (simp add: hostOnData_def finalizeGame_def startedRoom_def)
  have st: "status (hostOnData pawnOracle ''Ann'' W 1000 1000 (DrawResponse True) startedRoom)
              = Ended"
    unfolding r by simp
  have p: "status startedRoom = Playing" "drawOfferBy startedRoom = None"
    by (simp_all add: startedRoom_def)
  have ne: "hostOnData pawnOracle ''Ann'' W 1000 1000 (DrawResponse True) startedRoom
              \<noteq> startedRoom"
  proof
    assume "hostOnData pawnOracle ''Ann'' W 1000 1000 (DrawResponse True) startedRoom
              = startedRoom"
    with st have "status startedRoom = Ended" by simp
    with p show False by simp
  qed
  from r p ne show ?thesis by simp
qed

section \<open>Properties of the persistence of finished games\<close>

lemma mset_insertBy: "mset (insertBy cmp x xs) = add_mset x (mset xs)"
  by (induction xs) simp_all

lemma mset_sortBy: "mset (sortBy cmp xs) = mset xs"
  by (induction xs) (simp_all add: mset_insertBy)

lemma set_insertBy: "set (insertBy cmp x xs) = insert x (set xs)"
  by (induction xs) auto

lemma newestFirst_insertBy:
  "sorted_wrt (\<lambda>x y. createdAt y \<le> createdAt x) xs \<Longrightarrow>
   sorted_wrt (\<lambda>x y. createdAt y \<le> createdAt x) (insertBy newestFirst g xs)"
proof (induction xs)
  case Nil
  then show ?case by simp
next
  case (Cons y ys)
  show ?case
  proof (cases "newestFirst g y \<le> 0")
    case True
    then have "createdAt y \<le> createdAt g" by (simp add: newestFirst_def)
    with Cons.prems True show ?thesis by auto
  next
    case False
    then have "createdAt g \<le> createdAt y" by (simp add: newestFirst_def)
    with Cons False show ?thesis by (auto simp: set_insertBy)
  qed
qed

lemma newestFirst_sortBy:
  "sorted_wrt (\<lambda>x y. createdAt y \<le> createdAt x) (sortBy newestFirst xs)"
  by (induction xs) (simp_all add: newestFirst_insertBy)

text \<open>
  Claim C10. For every game \<open>g\<close> and every stored value, \<open>saveGame g\<close> stores a list whose
  first element is \<open>g\<close>, followed by the first 199 of the loaded games, so the stored list has
  at most 200 entries. \<open>loadGames\<close> returns the stored games (the same games, each as often as
  stored) ordered by \<open>createdAt\<close> descending, and the empty list when nothing is stored or the
  stored value cannot be parsed or is not an array.
\<close>

theorem storage_contract:
  "fst (saveGame g raw) = g # take 199 (loadGames raw) \<and>
   snd (saveGame g raw) = GamesArray (g # take 199 (loadGames raw)) \<and>
   length (fst (saveGame g raw)) \<le> 200 \<and>
   sorted_wrt (\<lambda>x y. createdAt y \<le> createdAt x) (loadGames raw) \<and>
   mset (loadGames (GamesArray gs)) = mset gs \<and>
   loadGames NoItem = [] \<and> loadGames Unparseable = [] \<and> loadGames NotArray = []"
proof -
  have s: "saveGame g raw =
             (g # take 199 (loadGames raw), GamesArray (g # take 199 (loadGames raw)))"
    by (simp add: saveGame_def Let_def)
  have sorted: "sorted_wrt (\<lambda>x y. createdAt y \<le> createdAt x) (loadGames raw)"
    by (cases raw) (simp_all add: loadGames_def newestFirst_sortBy)
  have perm: "mset (loadGames (GamesArray gs)) = mset gs"
    by (simp add: loadGames_def mset_sortBy)
  show ?thesis unfolding s using sorted perm by (simp add: loadGames_def)
qed

text \<open>
  Loading puts the newer game first; saving the older game on top of the newer one stores
  it first all the same; and saving over an unparseable value stores the one game.
\<close>

theorem storage_contract_witness:
  "loadGames (GamesArray [olderGame, newerGame]) = [newerGame, olderGame] \<and>
   fst (saveGame olderGame (GamesArray [newerGame])) = [olderGame, newerGame] \<and>
   snd (saveGame olderGame (GamesArray [newerGame])) = GamesArray [olderGame, newerGame] \<and>
   sorted_wrt (\<lambda>x y. createdAt y \<le> createdAt x)
     (loadGames (GamesArray [olderGame, newerGame])) \<and>
   fst (saveGame newerGame Unparseable) = [newerGame]"
proof -
  have l: "loadGames (GamesArray [olderGame, newerGame]) = [newerGame, olderGame]"
    by (simp add: loadGames_def newestFirst_def olderGame_def newerGame_def)
  have l1: "loadGames (GamesArray [newerGame]) = [newerGame]"
    by (simp add: loadGames_def)
  from storage_contract [of olderGame "GamesArray [newerGame]" "[]"]
       storage_contract [of newerGame Unparseable "[]"]
       storage_contract [of newerGame "GamesArray [olderGame, newerGame]" "[]"]
  show ?thesis using l l1 by simp
qed

end
